theory Spec2Isabelle
  imports Main "HOL-Library.Word"
begin

unbundle bit_operations_syntax

section \<open>The hashing collaborator: \<open>hashlib.sha256\<close>\<close>

text \<open>
  \<open>CacheManager.str_to_hash\<close> calls \<open>sha256(s.encode("utf8")).hexdigest()\<close>.
  \<open>hashlib\<close> belongs to the Python runtime, not to the repository; it is modelled
  here by the algorithm it implements (FIPS 180-4, SHA-256) on 32-bit words, and the
  model is checked below against the three digests listed in the self-test of
  \<open>cache_manager.py\<close> (\<open>str_hash_mapping\<close>).
\<close>

type_synonym byte = "8 word"
type_synonym w32 = "32 word"
type_synonym hstate = "w32 \<times> w32 \<times> w32 \<times> w32 \<times> w32 \<times> w32 \<times> w32 \<times> w32"

definition rotr :: "nat \<Rightarrow> w32 \<Rightarrow> w32" where
  "rotr n x = (drop_bit n x) OR (push_bit (32 - n) x)"

definition Ch :: "w32 \<Rightarrow> w32 \<Rightarrow> w32 \<Rightarrow> w32" where
  "Ch x y z = (x AND y) XOR (NOT x AND z)"

definition Maj :: "w32 \<Rightarrow> w32 \<Rightarrow> w32 \<Rightarrow> w32" where
  "Maj x y z = (x AND y) XOR (x AND z) XOR (y AND z)"

definition bsig0 :: "w32 \<Rightarrow> w32" where
  "bsig0 x = rotr 2 x XOR rotr 13 x XOR rotr 22 x"

definition bsig1 :: "w32 \<Rightarrow> w32" where
  "bsig1 x = rotr 6 x XOR rotr 11 x XOR rotr 25 x"

definition ssig0 :: "w32 \<Rightarrow> w32" where
  "ssig0 x = rotr 7 x XOR rotr 18 x XOR drop_bit 3 x"

definition ssig1 :: "w32 \<Rightarrow> w32" where
  "ssig1 x = rotr 17 x XOR rotr 19 x XOR drop_bit 10 x"

text \<open>The round constants, four to a row in the order of the standard.\<close>

definition K256 :: "w32 list" where
  "K256 =
     [0x428a2f98, 0x71374491, 0xb5c0fbcf, 0xe9b5dba5] @
     [0x3956c25b, 0x59f111f1, 0x923f82a4, 0xab1c5ed5] @
     [0xd807aa98, 0x12835b01, 0x243185be, 0x550c7dc3] @
     [0x72be5d74, 0x80deb1fe, 0x9bdc06a7, 0xc19bf174] @
     [0xe49b69c1, 0xefbe4786, 0x0fc19dc6, 0x240ca1cc] @
     [0x2de92c6f, 0x4a7484aa, 0x5cb0a9dc, 0x76f988da] @
     [0x983e5152, 0xa831c66d, 0xb00327c8, 0xbf597fc7] @
     [0xc6e00bf3, 0xd5a79147, 0x06ca6351, 0x14292967] @
     [0x27b70a85, 0x2e1b2138, 0x4d2c6dfc, 0x53380d13] @
     [0x650a7354, 0x766a0abb, 0x81c2c92e, 0x92722c85] @
     [0xa2bfe8a1, 0xa81a664b, 0xc24b8b70, 0xc76c51a3] @
     [0xd192e819, 0xd6990624, 0xf40e3585, 0x106aa070] @
     [0x19a4c116, 0x1e376c08, 0x2748774c, 0x34b0bcb5] @
     [0x391c0cb3, 0x4ed8aa4a, 0x5b9cca4f, 0x682e6ff3] @
     [0x748f82ee, 0x78a5636f, 0x84c87814, 0x8cc70208] @
     [0x90befffa, 0xa4506ceb, 0xbef9a3f7, 0xc67178f2]"

text \<open>The initial hash value.\<close>

definition H256 :: hstate where
  "H256 = (0x6a09e667, 0xbb67ae85, 0x3c6ef372,
           0xa54ff53a, 0x510e527f, 0x9b05688c,
           0x1f83d9ab, 0x5be0cd19)"

text \<open>Padding: the byte \<open>0x80\<close>, zero bytes up to 56 modulo 64, and the length of the
  message in bits as a big-endian 64-bit integer.\<close>

definition be64 :: "64 word \<Rightarrow> byte list" where
  "be64 n = map (\<lambda>i. ucast (drop_bit (8 * i) n)) [7, 6, 5, 4, 3, 2, 1, 0]"

definition pad :: "byte list \<Rightarrow> byte list" where
  "pad m = m @ [0x80] @ replicate ((64 - (length m + 9) mod 64) mod 64) 0
             @ be64 (word_of_nat (8 * length m))"

text \<open>The sixteen big-endian words of a 64-byte block.\<close>

fun be_words :: "byte list \<Rightarrow> w32 list" where
  "be_words (a # b # c # d # bs) =
     (push_bit 24 (ucast a) OR push_bit 16 (ucast b) OR push_bit 8 (ucast c) OR ucast d)
       # be_words bs"
| "be_words _ = []"

text \<open>The message schedule: the words 16 to 63 from the sixteen of the block. The list
  holds the schedule so far, newest word first.\<close>

fun schedule :: "nat \<Rightarrow> w32 list \<Rightarrow> w32 list" where
  "schedule 0 ws = ws"
| "schedule (Suc n) ws =
     schedule n ((ssig1 (ws ! 1) + ws ! 6 + ssig0 (ws ! 14) + ws ! 15) # ws)"

definition sha_round :: "hstate \<Rightarrow> w32 \<times> w32 \<Rightarrow> hstate" where
  "sha_round s kw =
     (case s of (a, b, c, d, e, f, g, h) \<Rightarrow>
        (let t1 = h + bsig1 e + Ch e f g + fst kw + snd kw;
             t2 = bsig0 a + Maj a b c
         in (t1 + t2, a, b, c, d + t1, e, f, g)))"

definition hadd :: "hstate \<Rightarrow> hstate \<Rightarrow> hstate" where
  "hadd s t =
     (case s of (a, b, c, d, e, f, g, h) \<Rightarrow>
      case t of (a', b', c', d', e', f', g', h') \<Rightarrow>
        (a + a', b + b', c + c', d + d', e + e', f + f', g + g', h + h'))"

definition compress :: "hstate \<Rightarrow> byte list \<Rightarrow> hstate" where
  "compress s block =
     hadd s (foldl sha_round s (zip K256 (rev (schedule 48 (rev (be_words block))))))"

fun sha_blocks :: "nat \<Rightarrow> hstate \<Rightarrow> byte list \<Rightarrow> hstate" where
  "sha_blocks 0 s m = s"
| "sha_blocks (Suc n) s m = sha_blocks n (compress s (take 64 m)) (drop 64 m)"

definition sha256 :: "byte list \<Rightarrow> hstate" where
  "sha256 m = sha_blocks (length (pad m) div 64) H256 (pad m)"

text \<open>\<open>hexdigest\<close>: the eight words, most significant nibble first, in lower case.\<close>

definition hex_digit :: "w32 \<Rightarrow> char" where
  "hex_digit n = ''0123456789abcdef'' ! unat (n AND 0xf)"

definition hex32 :: "w32 \<Rightarrow> string" where
  "hex32 w = map (\<lambda>i. hex_digit (drop_bit (4 * i) w)) [7, 6, 5, 4, 3, 2, 1, 0]"

definition hexdigest :: "hstate \<Rightarrow> string" where
  "hexdigest s =
     (case s of (a, b, c, d, e, f, g, h) \<Rightarrow>
        hex32 a @ hex32 b @ hex32 c @ hex32 d @ hex32 e @ hex32 f @ hex32 g @ hex32 h)"

section \<open>Keys\<close>

text \<open>
  A key is a Python \<open>str\<close>. It is modelled as a \<open>string\<close> that holds the key's UTF-8
  bytes (one \<open>char\<close> per byte; for ASCII keys one per character), so that
  \<open>encode("utf8")\<close> reads the bytes off. A \<open>str\<close> with no UTF-8 encoding (a lone
  surrogate), on which \<open>encode\<close> raises, has no counterpart in this type.
\<close>

definition encode_utf8 :: "string \<Rightarrow> byte list" where
  "encode_utf8 s = map of_char s"

definition str_to_hash :: "string \<Rightarrow> string" where
  "str_to_hash s = hexdigest (sha256 (encode_utf8 s))"

definition str_to_filename :: "string \<Rightarrow> string" where
  "str_to_filename s = str_to_hash s @ ''.pickle''"

section \<open>Exceptions\<close>

text \<open>
  Every \<open>raise\<close> that can leave a method of \<open>CacheManager\<close> is a value.
  \<open>AssertionError\<close> comes from the \<open>assert\<close> of \<open>__init__\<close>;
  \<open>FileNotFoundError\<close>, \<open>NotADirectoryError\<close> and \<open>IsADirectoryError\<close> from
  \<open>open\<close> and \<open>os.remove\<close>; \<open>PicklingError\<close>, \<open>UnpicklingError\<close> and \<open>EOFError\<close> from
  \<open>pickle\<close>; \<open>Raised name\<close> is an exception of the cached function's own.
\<close>

datatype pyerror =
    AssertionError
  | FileNotFoundError
  | NotADirectoryError
  | IsADirectoryError
  | PicklingError
  | UnpicklingError
  | EOFError
  | Raised string

section \<open>The filesystem\<close>

text \<open>
  The part of the filesystem the class touches: what stands at a path is nothing, a
  regular file with its bytes, or a directory. Paths are compared as written (POSIX
  separators, no links, no permissions, no quota): the failures of \<open>open\<close> and
  \<open>os.remove\<close> that are modelled are the ones that depend on what stands at the path
  and, for a file to be created, on what stands at the folder it is to lie in.
\<close>

datatype node = File "byte list" | Dir

type_synonym path = string
type_synonym filesystem = "path \<rightharpoonup> node"

text \<open>\<open>os.path.join\<close> (posixpath) on two components.\<close>

definition join :: "path \<Rightarrow> path \<Rightarrow> path" where
  "join a b =
     (if take 1 b = ''/'' then b
      else if a = [] \<or> last a = CHR ''/'' then a @ b
      else a @ ''/'' @ b)"

definition isdir :: "filesystem \<Rightarrow> path \<Rightarrow> bool" where
  "isdir fs p = (case fs p of Some Dir \<Rightarrow> True | _ \<Rightarrow> False)"

definition isfile :: "filesystem \<Rightarrow> path \<Rightarrow> bool" where
  "isfile fs p = (case fs p of Some (File _) \<Rightarrow> True | _ \<Rightarrow> False)"

text \<open>
  \<open>open(p, mode="rb")\<close> followed by reading the file to its end. With nothing at
  \<open>p\<close> the call fails whatever stands above \<open>p\<close>; the exception is given as
  \<open>FileNotFoundError\<close>, which is what Python raises unless a regular file stands in
  the place of the folder (then it is \<open>NotADirectoryError\<close>). The same holds of
  \<open>os.remove\<close> below.
\<close>

definition open_rb :: "filesystem \<Rightarrow> path \<Rightarrow> pyerror + byte list" where
  "open_rb fs p =
     (case fs p of
        None \<Rightarrow> Inl FileNotFoundError
      | Some Dir \<Rightarrow> Inl IsADirectoryError
      | Some (File bs) \<Rightarrow> Inr bs)"

text \<open>
  The directory part of a path, as \<open>os.path.dirname\<close> (posixpath) gives it: the path
  up to its last separator, without the separators at its end unless it consists of
  separators only. It is empty for a bare file name, which lies in the current
  directory.
\<close>

definition dirname :: "path \<Rightarrow> path" where
  "dirname p =
     (let head = rev (dropWhile (\<lambda>c. c \<noteq> CHR ''/'') (rev p))
      in if head \<noteq> [] \<and> head \<noteq> replicate (length head) CHR ''/''
         then rev (dropWhile (\<lambda>c. c = CHR ''/'') (rev head))
         else head)"

text \<open>
  \<open>open(p, mode="wb")\<close>: the file is created, or emptied when it is there. The folder
  the path lies in must be there: \<open>open\<close> raises \<open>FileNotFoundError\<close> when nothing
  stands at it and \<open>NotADirectoryError\<close> when a regular file does.
\<close>

definition open_wb :: "filesystem \<Rightarrow> path \<Rightarrow> pyerror + filesystem" where
  "open_wb fs p =
     (case (if dirname p = [] then Some Dir else fs (dirname p)) of
        None \<Rightarrow> Inl FileNotFoundError
      | Some (File _) \<Rightarrow> Inl NotADirectoryError
      | Some Dir \<Rightarrow>
          (case fs p of
             Some Dir \<Rightarrow> Inl IsADirectoryError
           | _ \<Rightarrow> Inr (fs(p \<mapsto> File []))))"

text \<open>\<open>os.remove(p)\<close>, with the exception Linux gives on a directory.\<close>

definition os_remove :: "filesystem \<Rightarrow> path \<Rightarrow> (pyerror + unit) \<times> filesystem" where
  "os_remove fs p =
     (case fs p of
        None \<Rightarrow> (Inl FileNotFoundError, fs)
      | Some Dir \<Rightarrow> (Inl IsADirectoryError, fs)
      | Some (File _) \<Rightarrow> (Inr (), fs(p := None)))"

section \<open>The serialization collaborator: \<open>pickle\<close>\<close>

text \<open>
  \<open>pickle\<close> is a parameter. \<open>pickle_dump pk obj\<close> gives the bytes \<open>pickle.dump(obj, f)\<close>
  writes to \<open>f\<close> and the exception it ends with, if any (an object that cannot be
  pickled); \<open>pickle_load pk bs\<close> is \<open>pickle.load(f)\<close> on a file that holds \<open>bs\<close>.
\<close>

record 'v pickle =
  pickle_dump :: "'v \<Rightarrow> byte list \<times> pyerror option"
  pickle_load :: "byte list \<Rightarrow> pyerror + 'v"

section \<open>\<open>CacheManager\<close>\<close>

record CacheManager =
  cache_folder_path :: path

text \<open>\<open>__init__\<close>: the \<open>assert\<close>, then the assignment of the attribute. The filesystem
  is returned as it was found: \<open>isdir\<close> is the only call.\<close>

definition init :: "filesystem \<Rightarrow> path \<Rightarrow> (pyerror + CacheManager) \<times> filesystem" where
  "init fs cache_folder =
     (if isdir fs cache_folder then (Inr \<lparr>cache_folder_path = cache_folder\<rparr>, fs)
      else (Inl AssertionError, fs))"

definition has_in_cache :: "CacheManager \<Rightarrow> filesystem \<Rightarrow> string \<Rightarrow> bool" where
  "has_in_cache self fs s = isfile fs (join (cache_folder_path self) (str_to_filename s))"

definition retrieve_from_cache ::
    "'v pickle \<Rightarrow> CacheManager \<Rightarrow> filesystem \<Rightarrow> string \<Rightarrow> pyerror + 'v" where
  "retrieve_from_cache pk self fs s =
     (case open_rb fs (join (cache_folder_path self) (str_to_filename s)) of
        Inl e \<Rightarrow> Inl e
      | Inr bs \<Rightarrow> pickle_load pk bs)"

definition clear_from_cache ::
    "CacheManager \<Rightarrow> filesystem \<Rightarrow> string \<Rightarrow> (pyerror + unit) \<times> filesystem" where
  "clear_from_cache self fs s =
     os_remove fs (join (cache_folder_path self) (str_to_filename s))"

text \<open>\<open>put_in_cache\<close>: the file is opened for writing before \<open>pickle.dump\<close> runs, so
  when \<open>pickle.dump\<close> raises, the file stays, with what had been written.\<close>

definition put_in_cache ::
    "'v pickle \<Rightarrow> CacheManager \<Rightarrow> filesystem \<Rightarrow> string \<Rightarrow> 'v \<Rightarrow> (pyerror + unit) \<times> filesystem" where
  "put_in_cache pk self fs s obj_to_cache =
     (case open_wb fs (join (cache_folder_path self) (str_to_filename s)) of
        Inl e \<Rightarrow> (Inl e, fs)
      | Inr fs' \<Rightarrow>
          (case pickle_dump pk obj_to_cache of
             (bs, Some e) \<Rightarrow>
               (Inl e, fs'(join (cache_folder_path self) (str_to_filename s) \<mapsto> File bs))
           | (bs, None) \<Rightarrow>
               (Inr (), fs'(join (cache_folder_path self) (str_to_filename s) \<mapsto> File bs))))"

text \<open>
  A cached function is any Python callable that comes back: it may raise, and it may
  change the world around it. The world is the filesystem together with whatever else
  the callable can change (\<open>env\<close>: a counter, a clock). The positional and keyword
  arguments of a call are one value \<open>args\<close>.
\<close>

record 'u world =
  files :: filesystem
  env :: 'u

type_synonym ('a, 'v, 'u) pyfun = "'a \<Rightarrow> 'u world \<Rightarrow> (pyerror + 'v) \<times> 'u world"

definition cachify ::
    "'v pickle \<Rightarrow> CacheManager \<Rightarrow> string \<Rightarrow> ('a, 'v, 'u) pyfun \<Rightarrow> 'a \<Rightarrow> 'u world
       \<Rightarrow> (pyerror + 'v) \<times> 'u world" where
  "cachify pk self s func args w =
     (if has_in_cache self (files w) s then (retrieve_from_cache pk self (files w) s, w)
      else
        (case func args w of
           (Inl e, w') \<Rightarrow> (Inl e, w')
         | (Inr return_value, w') \<Rightarrow>
             (case put_in_cache pk self (files w') s return_value of
                (Inl e, fs') \<Rightarrow> (Inl e, w'\<lparr>files := fs'\<rparr>)
              | (Inr _, fs') \<Rightarrow> (Inr return_value, w'\<lparr>files := fs'\<rparr>))))"

text \<open>\<open>memoize(str_to_hash)(func)\<close> is the wrapper: it hands its arguments on to
  \<open>cachify\<close> under the key fixed at decoration.\<close>

definition memoize ::
    "'v pickle \<Rightarrow> CacheManager \<Rightarrow> string \<Rightarrow> ('a, 'v, 'u) pyfun \<Rightarrow> ('a, 'v, 'u) pyfun" where
  "memoize pk self s = (\<lambda>func. (\<lambda>args w. cachify pk self s func args w))"

text \<open>
  The cached function of the self-test: it sleeps for a second and concatenates its
  three arguments. The seconds slept are what the test observes of a call; here they
  are the \<open>env\<close> of the world.
\<close>

definition expensive_function :: "(string \<times> string \<times> string, string, nat) pyfun" where
  "expensive_function args w =
     (case args of (a, b, c) \<Rightarrow> (Inr (a @ b @ c), w\<lparr>env := env w + 1\<rparr>))"

text \<open>The path of the entry of a key, as each method of the class writes it.\<close>

abbreviation entry_path :: "CacheManager \<Rightarrow> string \<Rightarrow> path" where
  "entry_path self s \<equiv> join (cache_folder_path self) (str_to_filename s)"

text \<open>
  A serializer to put in the place of \<open>pickle\<close> in the examples: a string is written
  as its bytes followed by the opcode \<open>.\<close> (STOP); reading an empty file ends in
  \<open>EOFError\<close>, reading bytes with no STOP at their end in \<open>UnpicklingError\<close>.
\<close>

definition example_pickle :: "string pickle" where
  "example_pickle =
     \<lparr>pickle_dump = (\<lambda>v. (map of_char v @ [0x2e], None)),
      pickle_load = (\<lambda>bs. if bs = [] then Inl EOFError
                           else if last bs = 0x2e then Inr (map (\<lambda>b. char_of (unat b)) (butlast bs))
                           else Inl UnpicklingError)\<rparr>"

text \<open>A cache manager over \<open>/cache\<close>, and a filesystem that holds that directory only.\<close>

definition example_manager :: CacheManager where
  "example_manager = \<lparr>cache_folder_path = ''/cache''\<rparr>"

definition empty_cache :: filesystem where
  "empty_cache = [''/cache'' \<mapsto> Dir]"

section \<open>The digest\<close>

text \<open>The three digests of \<open>str_hash_mapping\<close> in the self-test.\<close>

lemma str_to_hash_test:
  "str_to_hash ''test'' = ''9f86d081884c7d659a2feaa0c55ad015a3bf4f1b2b0b822cd15d6c15b0f00a08''"
  by code_simp

lemma str_to_hash_abc:
  "str_to_hash ''abc'' = ''ba7816bf8f01cfea414140de5dae2223b00361a396177a9cb410ff61f20015ad''"
  by code_simp

lemma str_to_hash_cache_manager:
  "str_to_hash ''cache_manager'' =
     ''34d7518f35fb588fcc7768ea21389b823f33e8eb8742a34172fcfff5ec388409''"
  by code_simp

text \<open>Three more: the empty key, a key of two bytes of UTF-8 (e with an acute
  accent), and a key whose padded message takes two blocks.\<close>

lemma str_to_hash_empty:
  "str_to_hash [] = ''e3b0c44298fc1c149afbf4c8996fb92427ae41e4649b934ca495991b7852b855''"
  by code_simp

lemma str_to_hash_two_bytes:
  "str_to_hash [CHR 0xC3, CHR 0xA9] =
     ''4a99557e4033c3539de2eb65472017cad5f9557f7a0625a09f1c3f6e2ba69c4c''"
  by code_simp

lemma str_to_hash_two_blocks:
  "str_to_hash (replicate 56 CHR ''a'') =
     ''b35439a4ac6f0948b6d6f9e3c6af0f5f590ce20f1bde7090ef7970686ec6738a''"
  by code_simp

lemma length_hex32: "length (hex32 w) = 8"
  by (simp add: hex32_def)

lemma length_hexdigest: "length (hexdigest s) = 64"
  by (simp add: hexdigest_def length_hex32 split: prod.splits)

lemma length_str_to_hash: "length (str_to_hash s) = 64"
  by (simp add: str_to_hash_def length_hexdigest)

lemma hex_digit_in: "hex_digit n \<in> set ''0123456789abcdef''"
proof -
  have "unat (n AND 0xf) \<le> unat (0xf :: w32)"
    by (rule word_and_le1 [THEN word_le_nat_alt [THEN iffD1]])
  then have "unat (n AND 0xf) < length ''0123456789abcdef''" by simp
  then show ?thesis unfolding hex_digit_def by (rule nth_mem)
qed

lemma set_hex32: "set (hex32 w) \<subseteq> set ''0123456789abcdef''"
  unfolding hex32_def using hex_digit_in by auto

lemma set_hexdigest: "set (hexdigest s) \<subseteq> set ''0123456789abcdef''"
proof -
  obtain a b c d e f g h where s: "s = (a, b, c, d, e, f, g, h)"
    by (cases s) auto
  show ?thesis
    by (simp only: s hexdigest_def prod.case set_append Un_subset_iff set_hex32 simp_thms)
qed

lemma set_str_to_hash: "set (str_to_hash s) \<subseteq> set ''0123456789abcdef''"
  by (simp only: str_to_hash_def set_hexdigest)

text \<open>A file name never starts with the separator, so \<open>join\<close> appends it to the
  folder, and two keys share a path exactly when they share a digest.\<close>

lemma str_to_hash_not_sep: "take 1 (str_to_hash s) \<noteq> ''/''"
proof
  assume a: "take 1 (str_to_hash s) = ''/''"
  have "str_to_hash s \<noteq> []" using length_str_to_hash [of s] by auto
  then obtain c cs where cs: "str_to_hash s = c # cs" by (cases "str_to_hash s") auto
  with a have "c = CHR ''/''" by simp
  moreover have "c \<in> set ''0123456789abcdef''" using set_str_to_hash [of s] cs by auto
  ultimately show False by simp
qed

lemma str_to_filename_not_sep: "take 1 (str_to_filename s) \<noteq> ''/''"
  using str_to_hash_not_sep [of s] length_str_to_hash [of s]
  by (cases "str_to_hash s") (auto simp: str_to_filename_def)

lemma join_filename:
  "entry_path self s =
     (if cache_folder_path self = [] \<or> last (cache_folder_path self) = CHR ''/''
      then cache_folder_path self @ str_to_filename s
      else cache_folder_path self @ ''/'' @ str_to_filename s)"
  using str_to_filename_not_sep [of s] by (simp add: join_def)

lemma entry_path_eq_iff:
  "entry_path self s = entry_path self t \<longleftrightarrow> str_to_hash s = str_to_hash t"
  by (simp add: join_filename) (simp add: str_to_filename_def)

text \<open>A file name holds no separator, so the directory part of an entry's path is the
  cache folder, when the folder is written without a separator at its end.\<close>

lemma str_to_filename_no_sep: "CHR ''/'' \<notin> set (str_to_filename s)"
  using set_str_to_hash [of s] by (auto simp: str_to_filename_def)

lemma dirname_in_folder:
  assumes "d \<noteq> []" and "last d \<noteq> CHR ''/''" and "CHR ''/'' \<notin> set f"
  shows "dirname (d @ ''/'' @ f) = d"
proof -
  have "dropWhile (\<lambda>c. c \<noteq> CHR ''/'') (rev f @ CHR ''/'' # rev d)
          = dropWhile (\<lambda>c. c \<noteq> CHR ''/'') (CHR ''/'' # rev d)"
    using assms(3) by (intro dropWhile_append2) auto
  then have head: "rev (dropWhile (\<lambda>c. c \<noteq> CHR ''/'') (rev (d @ ''/'' @ f))) = d @ ''/''"
    by simp
  have hd: "hd (rev d) \<noteq> CHR ''/''"
    using assms(1,2) by (simp add: hd_rev)
  have strip: "dropWhile (\<lambda>c. c = CHR ''/'') (rev d) = rev d"
    using assms(1) hd by (cases "rev d") auto
  have "last d \<in> set (d @ ''/'')" using assms(1) by simp
  then have notall: "d @ ''/'' \<noteq> replicate (length (d @ ''/'')) CHR ''/''"
    using assms(2) by (metis in_set_replicate)
  show ?thesis
    unfolding dirname_def head Let_def using notall strip by simp
qed

lemma dirname_entry_path:
  assumes "cache_folder_path self \<noteq> []" and "last (cache_folder_path self) \<noteq> CHR ''/''"
  shows "dirname (entry_path self s) = cache_folder_path self"
  using assms dirname_in_folder [OF assms str_to_filename_no_sep, of s]
  by (simp add: join_filename)

text \<open>The padded message is a whole number of 64-byte blocks.\<close>

lemma pad_arith: "((n::nat) + (64 - n mod 64) mod 64) mod 64 = 0"
proof (cases "n mod 64 = 0")
  case True
  then show ?thesis by simp
next
  case False
  define q k where "q = n div 64" and "k = n mod 64"
  have n: "n = 64 * q + k" unfolding q_def k_def by simp
  have k: "0 < k" "k < 64" using False unfolding k_def by simp_all
  have "n + (64 - k) mod 64 = 64 * (q + 1)" using n k by simp
  then show ?thesis unfolding k_def [symmetric] by (simp del: mult_Suc_right)
qed

lemma length_pad: "length (pad m) mod 64 = 0"
proof -
  have "length (pad m) = (length m + 9) + (64 - (length m + 9) mod 64) mod 64"
    by (simp add: pad_def be64_def)
  then show ?thesis by (simp only: pad_arith)
qed

section \<open>The example serializer\<close>

lemma unat_of_char: "unat (of_char c :: byte) = of_char c"
proof -
  have "(of_char c :: byte) = of_nat (of_char c)" by (simp add: of_nat_of_char)
  then have "unat (of_char c :: byte) = (of_char c :: nat) mod 2 ^ 8"
    by (simp add: unat_of_nat)
  then show ?thesis by simp
qed

lemma example_pickle_load: "pickle_load example_pickle (map of_char v @ [0x2e]) = Inr v"
  by (simp add: example_pickle_def unat_of_char comp_def)

lemma example_entry_path:
  "entry_path example_manager s = ''/cache/'' @ str_to_hash s @ ''.pickle''"
  using join_filename [of example_manager s]
  by (simp add: example_manager_def str_to_filename_def)

lemma empty_cache_entry: "empty_cache (entry_path example_manager s) = None"
  by (simp add: example_entry_path empty_cache_def)

lemma example_dirname: "dirname (entry_path example_manager s) = ''/cache''"
  using dirname_entry_path [of example_manager s] by (simp add: example_manager_def)

lemma empty_cache_folder: "isdir empty_cache (dirname (entry_path example_manager s))"
  by (simp add: example_dirname isdir_def empty_cache_def)

section \<open>The primitive operations\<close>

lemma put_in_cache_ok:
  assumes "isdir fs (dirname (entry_path self s))" and "\<not> isdir fs (entry_path self s)"
    and "pickle_dump pk v = (bs, None)"
  shows "put_in_cache pk self fs s v = (Inr (), fs(entry_path self s \<mapsto> File bs))"
  using assms
  by (auto simp: put_in_cache_def open_wb_def isdir_def split: option.splits node.splits)

lemma put_in_cache_files:
  "snd (put_in_cache pk self fs s v) =
     (if (dirname (entry_path self s) = [] \<or> isdir fs (dirname (entry_path self s)))
         \<and> \<not> isdir fs (entry_path self s)
      then fs(entry_path self s \<mapsto> File (fst (pickle_dump pk v)))
      else fs)"
  by (auto simp: put_in_cache_def open_wb_def isdir_def
        split: option.splits node.splits prod.splits)

text \<open>With no directory for the entry to lie in, \<open>put_in_cache\<close> raises what \<open>open\<close>
  raises and writes nothing.\<close>

lemma put_in_cache_no_folder:
  assumes "dirname (entry_path self s) \<noteq> []" and "fs (dirname (entry_path self s)) = None"
  shows "put_in_cache pk self fs s v = (Inl FileNotFoundError, fs)"
  using assms by (simp add: put_in_cache_def open_wb_def)

lemma put_in_cache_folder_is_file:
  assumes "dirname (entry_path self s) \<noteq> []"
    and "fs (dirname (entry_path self s)) = Some (File bs)"
  shows "put_in_cache pk self fs s v = (Inl NotADirectoryError, fs)"
  using assms by (simp add: put_in_cache_def open_wb_def)

lemma clear_from_cache_files:
  "snd (clear_from_cache self fs s) =
     (if isfile fs (entry_path self s) then fs(entry_path self s := None) else fs)"
  by (auto simp: clear_from_cache_def os_remove_def isfile_def split: option.splits node.splits)

lemma retrieve_written:
  "fs (entry_path self s) = Some (File bs) \<Longrightarrow>
     retrieve_from_cache pk self fs s = pickle_load pk bs"
  by (simp add: retrieve_from_cache_def open_rb_def)

section \<open>\<open>cachify\<close> and \<open>memoize\<close>\<close>

lemma cachify_hit:
  "has_in_cache self (files w) s \<Longrightarrow>
     cachify pk self s func args w = (retrieve_from_cache pk self (files w) s, w)"
  by (simp add: cachify_def)

lemma cachify_miss_ok:
  assumes "\<not> has_in_cache self (files w) s" and "func args w = (Inr v, w1)"
    and "isdir (files w1) (dirname (entry_path self s))"
    and "\<not> isdir (files w1) (entry_path self s)" and "pickle_dump pk v = (bs, None)"
  shows "cachify pk self s func args w =
           (Inr v, w1\<lparr>files := (files w1)(entry_path self s \<mapsto> File bs)\<rparr>)"
  using assms by (simp add: cachify_def put_in_cache_ok)

lemma cachify_again:
  assumes "pickle_load pk bs = Inr v"
  shows "cachify pk self s func args (w\<lparr>files := (files w)(entry_path self s \<mapsto> File bs)\<rparr>) =
           (Inr v, w\<lparr>files := (files w)(entry_path self s \<mapsto> File bs)\<rparr>)"
  using assms
  by (simp add: cachify_def has_in_cache_def isfile_def retrieve_from_cache_def open_rb_def)

section \<open>The claims\<close>

text \<open>
  C1. For a key \<open>s\<close> and a computation \<open>func\<close>: when the entry of \<open>s\<close> exists,
  \<open>cachify\<close> returns what \<open>retrieve_from_cache\<close> returns and leaves the world as it was,
  so \<open>func\<close> has not run. When there is no entry and \<open>func\<close> returns \<open>v\<close>, leaving
  the world \<open>w1\<close>, \<open>cachify\<close> returns \<open>v\<close> and its final world is \<open>w1\<close> with the
  pickled \<open>v\<close> written at the entry's path: the effect of one run of \<open>func\<close> and of
  \<open>put_in_cache\<close>, and nothing else. A second call under the same key, with any
  computation, then returns \<open>v\<close> again and leaves the world untouched, so that the two
  calls have run \<open>func\<close> once in total. What the store needs is asked for: in the
  world \<open>func\<close> left, the folder of the entry is a directory and the entry's path
  holds none, and \<open>v\<close> can be pickled; for the second call, \<open>pickle\<close> gives \<open>v\<close>
  back.
\<close>

theorem cachify_computes_once:
  "(has_in_cache self (files w) s \<longrightarrow>
      cachify pk self s func args w = (retrieve_from_cache pk self (files w) s, w))
   \<and> (\<not> has_in_cache self (files w) s \<and> func args w = (Inr v, w1)
        \<and> isdir (files w1) (dirname (entry_path self s))
        \<and> \<not> isdir (files w1) (entry_path self s) \<and> pickle_dump pk v = (bs, None) \<longrightarrow>
      cachify pk self s func args w =
        (Inr v, w1\<lparr>files := (files w1)(entry_path self s \<mapsto> File bs)\<rparr>)
      \<and> put_in_cache pk self (files w1) s v =
          (Inr (), (files w1)(entry_path self s \<mapsto> File bs))
      \<and> (pickle_load pk bs = Inr v \<longrightarrow>
           cachify pk self s func' args'
               (w1\<lparr>files := (files w1)(entry_path self s \<mapsto> File bs)\<rparr>) =
             (Inr v, w1\<lparr>files := (files w1)(entry_path self s \<mapsto> File bs)\<rparr>)))"
  by (simp add: cachify_hit cachify_miss_ok cachify_again put_in_cache_ok)

text \<open>
  The scenario of \<open>test_cachify\<close>: over an empty cache folder the first call runs
  \<open>expensive_function\<close> (one second slept) and writes the entry; the second call
  returns the same string, and the seconds slept stay at one.
\<close>

theorem cachify_computes_once_witness:
  "cachify example_pickle example_manager ''expensive_name'' expensive_function
       (''Hello'', '' '', ''World!'') \<lparr>files = empty_cache, env = 0\<rparr>
     = (Inr ''Hello World!'',
        \<lparr>files = empty_cache(entry_path example_manager ''expensive_name''
                   \<mapsto> File (map of_char ''Hello World!'' @ [0x2e])),
         env = 1\<rparr>)
   \<and> cachify example_pickle example_manager ''expensive_name'' expensive_function
       (''Hello'', '' '', ''World!'')
       \<lparr>files = empty_cache(entry_path example_manager ''expensive_name''
                   \<mapsto> File (map of_char ''Hello World!'' @ [0x2e])),
        env = 1\<rparr>
     = (Inr ''Hello World!'',
        \<lparr>files = empty_cache(entry_path example_manager ''expensive_name''
                   \<mapsto> File (map of_char ''Hello World!'' @ [0x2e])),
         env = 1\<rparr>)"
proof -
  let ?w = "\<lparr>files = empty_cache, env = 0::nat\<rparr>"
  let ?w1 = "\<lparr>files = empty_cache, env = 1::nat\<rparr>"
  let ?bs = "map of_char ''Hello World!'' @ [0x2e :: byte]"
  have miss: "\<not> has_in_cache example_manager (files ?w) ''expensive_name''"
    by (simp add: has_in_cache_def isfile_def empty_cache_entry)
  have run: "expensive_function (''Hello'', '' '', ''World!'') ?w = (Inr ''Hello World!'', ?w1)"
    by (simp add: expensive_function_def)
  have folder: "isdir (files ?w1) (dirname (entry_path example_manager ''expensive_name''))"
    by (simp add: empty_cache_folder)
  have nodir: "\<not> isdir (files ?w1) (entry_path example_manager ''expensive_name'')"
    by (simp add: isdir_def empty_cache_entry)
  have dump: "pickle_dump example_pickle ''Hello World!'' = (?bs, None)"
    by (simp add: example_pickle_def)
  have load: "pickle_load example_pickle ?bs = Inr ''Hello World!''"
    using example_pickle_load [of "''Hello World!''"] by simp
  from cachify_computes_once [where self = example_manager and w = ?w
      and s = "''expensive_name''" and pk = example_pickle and func = expensive_function
      and args = "(''Hello'', '' '', ''World!'')" and v = "''Hello World!''" and ?w1.0 = ?w1
      and bs = ?bs and func' = expensive_function and args' = "(''Hello'', '' '', ''World!'')"]
    miss run folder nodir dump load
  show ?thesis by simp
qed

text \<open>
  C2. The wrapper made by \<open>memoize\<close> under a key \<open>s\<close> hands its arguments to \<open>func\<close>
  but never to the cache: after a first call with \<open>args1\<close> that found no entry, ran
  \<open>func\<close> to the result \<open>v\<close> and stored it, a call with any arguments \<open>args2\<close> returns
  \<open>v\<close> and leaves the world as the first call left it, so the body of \<open>func\<close> has
  run once. As for \<open>cachify\<close>, what the store needs is asked for (in the world
  \<open>func\<close> left, the folder of the entry is a directory and the entry's path holds
  none; \<open>v\<close> can be pickled), and \<open>pickle\<close> gives \<open>v\<close> back.
\<close>

theorem memoize_key_identity:
  assumes "\<not> has_in_cache self (files w) s" and "func args1 w = (Inr v, w1)"
    and "isdir (files w1) (dirname (entry_path self s))"
    and "\<not> isdir (files w1) (entry_path self s)" and "pickle_dump pk v = (bs, None)"
    and "pickle_load pk bs = Inr v"
  shows "memoize pk self s func args1 w =
           (Inr v, w1\<lparr>files := (files w1)(entry_path self s \<mapsto> File bs)\<rparr>)
         \<and> memoize pk self s func args2
               (w1\<lparr>files := (files w1)(entry_path self s \<mapsto> File bs)\<rparr>) =
           (Inr v, w1\<lparr>files := (files w1)(entry_path self s \<mapsto> File bs)\<rparr>)"
  using assms by (simp add: memoize_def cachify_miss_ok cachify_again)

text \<open>The memoized function called with \<open>(Hello, space, World!)\<close> and then with
  \<open>(X, Y, Z)\<close>: the same string both times, one second slept.\<close>

theorem memoize_key_identity_witness:
  "memoize example_pickle example_manager ''expensive_name'' expensive_function
       (''Hello'', '' '', ''World!'') \<lparr>files = empty_cache, env = 0\<rparr>
     = (Inr ''Hello World!'',
        \<lparr>files = empty_cache(entry_path example_manager ''expensive_name''
                   \<mapsto> File (map of_char ''Hello World!'' @ [0x2e])),
         env = 1\<rparr>)
   \<and> memoize example_pickle example_manager ''expensive_name'' expensive_function
       (''X'', ''Y'', ''Z'')
       \<lparr>files = empty_cache(entry_path example_manager ''expensive_name''
                   \<mapsto> File (map of_char ''Hello World!'' @ [0x2e])),
        env = 1\<rparr>
     = (Inr ''Hello World!'',
        \<lparr>files = empty_cache(entry_path example_manager ''expensive_name''
                   \<mapsto> File (map of_char ''Hello World!'' @ [0x2e])),
         env = 1\<rparr>)"
proof -
  let ?w = "\<lparr>files = empty_cache, env = 0::nat\<rparr>"
  let ?w1 = "\<lparr>files = empty_cache, env = 1::nat\<rparr>"
  let ?bs = "map of_char ''Hello World!'' @ [0x2e :: byte]"
  have miss: "\<not> has_in_cache example_manager (files ?w) ''expensive_name''"
    by (simp add: has_in_cache_def isfile_def empty_cache_entry)
  have run: "expensive_function (''Hello'', '' '', ''World!'') ?w = (Inr ''Hello World!'', ?w1)"
    by (simp add: expensive_function_def)
  have folder: "isdir (files ?w1) (dirname (entry_path example_manager ''expensive_name''))"
    by (simp add: empty_cache_folder)
  have nodir: "\<not> isdir (files ?w1) (entry_path example_manager ''expensive_name'')"
    by (simp add: isdir_def empty_cache_entry)
  have dump: "pickle_dump example_pickle ''Hello World!'' = (?bs, None)"
    by (simp add: example_pickle_def)
  have load: "pickle_load example_pickle ?bs = Inr ''Hello World!''"
    using example_pickle_load [of "''Hello World!''"] by simp
  from memoize_key_identity [where self = example_manager and w = ?w
      and s = "''expensive_name''" and func = expensive_function
      and ?args1.0 = "(''Hello'', '' '', ''World!'')" and v = "''Hello World!''" and ?w1.0 = ?w1
      and pk = example_pickle and bs = ?bs and ?args2.0 = "(''X'', ''Y'', ''Z'')"]
    miss run folder nodir dump load
  show ?thesis by simp
qed

text \<open>
  C3. When there is no entry for \<open>s\<close> and \<open>func\<close> raises \<open>e\<close>, \<open>cachify\<close> ends with
  the same \<open>e\<close> and adds nothing to what \<open>func\<close> did: its final world is the one
  \<open>func\<close> left. When \<open>func\<close> itself has not written the filesystem, the filesystem
  is as before the call, and \<open>has_in_cache\<close> is still false.
\<close>

theorem failed_compute_not_cached:
  assumes "\<not> has_in_cache self (files w) s" and "func args w = (Inl e, w1)"
  shows "cachify pk self s func args w = (Inl e, w1)
         \<and> (files w1 = files w \<longrightarrow>
               files (snd (cachify pk self s func args w)) = files w
               \<and> \<not> has_in_cache self (files (snd (cachify pk self s func args w))) s)"
  using assms by (simp add: cachify_def)

theorem failed_compute_not_cached_witness:
  "cachify example_pickle example_manager ''expensive_name''
       (\<lambda>args w. (Inl (Raised ''ValueError''), w\<lparr>env := env w + 1\<rparr>))
       (''Hello'', '' '', ''World!'') \<lparr>files = empty_cache, env = 0::nat\<rparr>
     = (Inl (Raised ''ValueError''), \<lparr>files = empty_cache, env = 1\<rparr>)
   \<and> \<not> has_in_cache example_manager
         (files (snd (cachify example_pickle example_manager ''expensive_name''
            (\<lambda>args w. (Inl (Raised ''ValueError''), w\<lparr>env := env w + 1\<rparr>))
            (''Hello'', '' '', ''World!'') \<lparr>files = empty_cache, env = 0::nat\<rparr>)))
         ''expensive_name''"
proof -
  let ?w = "\<lparr>files = empty_cache, env = 0::nat\<rparr>"
  let ?f = "\<lambda>(args :: string \<times> string \<times> string) (w :: nat world).
              (Inl (Raised ''ValueError'') :: pyerror + string, w\<lparr>env := env w + 1\<rparr>)"
  have miss: "\<not> has_in_cache example_manager (files ?w) ''expensive_name''"
    by (simp add: has_in_cache_def isfile_def empty_cache_entry)
  have run: "?f (''Hello'', '' '', ''World!'') ?w
               = (Inl (Raised ''ValueError''), \<lparr>files = empty_cache, env = 1\<rparr>)"
    by simp
  from failed_compute_not_cached [where self = example_manager and w = ?w
      and s = "''expensive_name''" and func = ?f and args = "(''Hello'', '' '', ''World!'')"
      and e = "Raised ''ValueError''" and ?w1.0 = "\<lparr>files = empty_cache, env = 1\<rparr>"
      and pk = example_pickle]
    miss run
  show ?thesis by simp
qed

text \<open>
  C4. For a key \<open>s\<close> and a value \<open>v\<close> that \<open>pickle\<close> writes as \<open>bs\<close> and reads back
  from \<open>bs\<close>, \<open>put_in_cache\<close> returns and \<open>retrieve_from_cache\<close> on the filesystem it
  leaves returns \<open>v\<close>. Nothing is asked of what the entry held before: nothing, or a
  file with any bytes, which the store overwrites. The folder of the entry must be a
  directory and the entry's path must hold none (\<open>open\<close> would raise).
\<close>

theorem store_load_roundtrip:
  assumes "isdir fs (dirname (entry_path self s))" and "\<not> isdir fs (entry_path self s)"
    and "pickle_dump pk v = (bs, None)" and "pickle_load pk bs = Inr v"
  shows "\<exists>fs'. put_in_cache pk self fs s v = (Inr (), fs')
               \<and> retrieve_from_cache pk self fs' s = Inr v"
  using assms by (simp add: put_in_cache_ok retrieve_written)

text \<open>A store over an entry that holds an older value.\<close>

theorem store_load_roundtrip_witness:
  "put_in_cache example_pickle example_manager
       (empty_cache(entry_path example_manager ''test'' \<mapsto> File (map of_char ''a'' @ [0x2e])))
       ''test'' ''test''
     = (Inr (), empty_cache(entry_path example_manager ''test''
                  \<mapsto> File (map of_char ''test'' @ [0x2e])))
   \<and> retrieve_from_cache example_pickle example_manager
        (empty_cache(entry_path example_manager ''test''
                  \<mapsto> File (map of_char ''test'' @ [0x2e]))) ''test''
     = Inr ''test''"
proof -
  let ?fs = "empty_cache(entry_path example_manager ''test''
               \<mapsto> File (map of_char ''a'' @ [0x2e]))"
  let ?bs = "map of_char ''test'' @ [0x2e :: byte]"
  have folder: "isdir ?fs (dirname (entry_path example_manager ''test''))"
    by (simp only: example_dirname) (simp add: example_entry_path isdir_def empty_cache_def)
  have nodir: "\<not> isdir ?fs (entry_path example_manager ''test'')"
    by (simp add: isdir_def)
  have dump: "pickle_dump example_pickle ''test'' = (?bs, None)"
    by (simp add: example_pickle_def)
  have load: "pickle_load example_pickle ?bs = Inr ''test''"
    using example_pickle_load [of "''test''"] by simp
  from store_load_roundtrip [where fs = ?fs and self = example_manager and s = "''test''"
      and pk = example_pickle and v = "''test''" and bs = ?bs] folder nodir dump load
  obtain fs' where 1: "put_in_cache example_pickle example_manager ?fs ''test'' ''test'' = (Inr (), fs')"
    and 2: "retrieve_from_cache example_pickle example_manager fs' ''test'' = Inr ''test''"
    by blast
  have "put_in_cache example_pickle example_manager ?fs ''test'' ''test''
          = (Inr (), ?fs(entry_path example_manager ''test'' \<mapsto> File ?bs))"
    by (rule put_in_cache_ok [OF folder nodir dump])
  with 1 have 3: "fs' = empty_cache(entry_path example_manager ''test'' \<mapsto> File ?bs)"
    by simp
  show ?thesis using 1 2 unfolding 3 by simp
qed

text \<open>
  C5. The entry of a key is absent or present, as \<open>has_in_cache\<close> tells. With nothing
  at the entry's path, \<open>has_in_cache\<close> is false. After \<open>put_in_cache\<close>, from an absent
  or from a present entry (the folder of the entry is a directory, the entry's path
  holds none), it is true. After
  \<open>clear_from_cache\<close> on a present entry, which returns, it is false. On an entry that
  is not present \<open>clear_from_cache\<close> raises and changes nothing.
\<close>

theorem existence_transitions:
  "(fs (entry_path self s) = None \<longrightarrow> \<not> has_in_cache self fs s)
   \<and> (isdir fs (dirname (entry_path self s)) \<and> \<not> isdir fs (entry_path self s) \<longrightarrow>
        has_in_cache self (snd (put_in_cache pk self fs s v)) s)
   \<and> (has_in_cache self fs s \<longrightarrow>
        (\<exists>fs'. clear_from_cache self fs s = (Inr (), fs') \<and> \<not> has_in_cache self fs' s))
   \<and> (\<not> has_in_cache self fs s \<longrightarrow> (\<exists>e. clear_from_cache self fs s = (Inl e, fs)))"
  by (auto simp: has_in_cache_def isfile_def put_in_cache_files clear_from_cache_def os_remove_def
        split: option.splits node.splits)

text \<open>Absent, stored, stored again, cleared.\<close>

theorem existence_transitions_witness:
  "\<not> has_in_cache example_manager empty_cache ''test''
   \<and> has_in_cache example_manager
        (snd (put_in_cache example_pickle example_manager empty_cache ''test'' ''a'')) ''test''
   \<and> has_in_cache example_manager
        (snd (put_in_cache example_pickle example_manager
           (snd (put_in_cache example_pickle example_manager empty_cache ''test'' ''a''))
           ''test'' ''b'')) ''test''
   \<and> \<not> has_in_cache example_manager
        (snd (clear_from_cache example_manager
           (snd (put_in_cache example_pickle example_manager empty_cache ''test'' ''a''))
           ''test'')) ''test''"
proof -
  let ?fs1 = "snd (put_in_cache example_pickle example_manager empty_cache ''test'' ''a'')"
  have absent: "empty_cache (entry_path example_manager ''test'') = None"
    by (rule empty_cache_entry)
  then have nodir: "\<not> isdir empty_cache (entry_path example_manager ''test'')"
    by (simp add: isdir_def)
  have 1: "\<not> has_in_cache example_manager empty_cache ''test''"
    using existence_transitions [where fs = empty_cache and self = example_manager
        and s = "''test''" and pk = example_pickle and v = "''a''"] absent by simp
  have folder: "isdir empty_cache (dirname (entry_path example_manager ''test''))"
    by (rule empty_cache_folder)
  have 2: "has_in_cache example_manager ?fs1 ''test''"
    using existence_transitions [where fs = empty_cache and self = example_manager
        and s = "''test''" and pk = example_pickle and v = "''a''"] folder nodir by simp
  have fs1: "?fs1 = empty_cache(entry_path example_manager ''test''
                \<mapsto> File (fst (pickle_dump example_pickle ''a'')))"
    by (simp add: put_in_cache_files folder nodir)
  have nodir1: "\<not> isdir ?fs1 (entry_path example_manager ''test'')"
    unfolding fs1 by (simp add: isdir_def)
  have folder1: "isdir ?fs1 (dirname (entry_path example_manager ''test''))"
    unfolding fs1
    by (simp only: example_dirname) (simp add: example_entry_path isdir_def empty_cache_def)
  have 3: "has_in_cache example_manager
             (snd (put_in_cache example_pickle example_manager ?fs1 ''test'' ''b'')) ''test''"
    using existence_transitions [where fs = ?fs1 and self = example_manager
        and s = "''test''" and pk = example_pickle and v = "''b''"] folder1 nodir1 by simp
  from existence_transitions [where fs = ?fs1 and self = example_manager and s = "''test''"
      and pk = example_pickle and v = "''a''"] 2
  obtain fs' where c: "clear_from_cache example_manager ?fs1 ''test'' = (Inr (), fs')"
    and n: "\<not> has_in_cache example_manager fs' ''test''"
    by blast
  have 4: "\<not> has_in_cache example_manager
              (snd (clear_from_cache example_manager ?fs1 ''test'')) ''test''"
    using n by (simp add: c)
  show ?thesis using 1 2 3 4 by simp
qed



text \<open>
  C7. When the entry is a file whose bytes \<open>pickle.load\<close> cannot read, ending in the
  exception \<open>e\<close>, \<open>retrieve_from_cache\<close> ends in that same \<open>e\<close>: it returns no value,
  and the exception is neither caught nor replaced.
\<close>

theorem corrupt_entry_error:
  assumes "fs (entry_path self s) = Some (File bs)" and "pickle_load pk bs = Inl e"
  shows "retrieve_from_cache pk self fs s = Inl e"
  using assms by (simp add: retrieve_written)

text \<open>An entry cut before its STOP opcode, and an empty one.\<close>

theorem corrupt_entry_error_witness:
  "retrieve_from_cache example_pickle example_manager
      (empty_cache(entry_path example_manager ''test'' \<mapsto> File [0x74, 0x65])) ''test''
     = Inl UnpicklingError
   \<and> retrieve_from_cache example_pickle example_manager
      (empty_cache(entry_path example_manager ''test'' \<mapsto> File [])) ''test''
     = Inl EOFError"
proof -
  have 1: "pickle_load example_pickle [0x74, 0x65] = Inl UnpicklingError"
    by (simp add: example_pickle_def)
  have 2: "pickle_load example_pickle [] = Inl EOFError"
    by (simp add: example_pickle_def)
  show ?thesis
    using corrupt_entry_error [where pk = example_pickle and self = example_manager
        and s = "''test''" and bs = "[0x74, 0x65]" and e = UnpicklingError
        and fs = "empty_cache(entry_path example_manager ''test'' \<mapsto> File [0x74, 0x65])"]
      corrupt_entry_error [where pk = example_pickle and self = example_manager
        and s = "''test''" and bs = "[]" and e = EOFError
        and fs = "empty_cache(entry_path example_manager ''test'' \<mapsto> File [])"]
      1 2
    by simp
qed

text \<open>
  C8. \<open>__init__\<close> on a path that holds no directory (nothing, or a regular file) ends
  in the \<open>AssertionError\<close> of its \<open>assert\<close> and gives no \<open>CacheManager\<close>; on a
  directory it gives the manager of that path. In both cases the filesystem is as it
  was. (The \<open>assert\<close> is the statement as Python runs it by default, with assertions
  enabled.)
\<close>

theorem init_checks_directory:
  "(fs p \<noteq> Some Dir \<longrightarrow> init fs p = (Inl AssertionError, fs))
   \<and> (fs p = Some Dir \<longrightarrow> init fs p = (Inr \<lparr>cache_folder_path = p\<rparr>, fs))"
  by (auto simp: init_def isdir_def split: option.splits node.splits)

theorem init_checks_directory_witness:
  "init empty_cache ''/nowhere'' = (Inl AssertionError, empty_cache)
   \<and> init (empty_cache(''/cache/notes.txt'' \<mapsto> File [])) ''/cache/notes.txt''
       = (Inl AssertionError, empty_cache(''/cache/notes.txt'' \<mapsto> File []))
   \<and> init empty_cache ''/cache'' = (Inr example_manager, empty_cache)"
  using init_checks_directory [of empty_cache "''/nowhere''"]
    init_checks_directory [of "empty_cache(''/cache/notes.txt'' \<mapsto> File [])" "''/cache/notes.txt''"]
    init_checks_directory [of empty_cache "''/cache''"]
  by (simp add: empty_cache_def example_manager_def)

text \<open>
  C9. \<open>str_to_hash\<close> is a function of the key alone: the hexadecimal digest that
  SHA-256 (the initial hash value, then the compression function over the blocks of the
  padded message) gives of the key's UTF-8 bytes, 64 characters out of
  \<open>0123456789abcdef\<close>. The digest of \<open>test\<close> is the one the claim gives, and the digests
  of \<open>abc\<close> and \<open>cache_manager\<close> are those of the self-test; the empty key, a key of
  two bytes of UTF-8 and a key of two blocks have the digests SHA-256 has for them. The
  file of a key is its digest followed by \<open>.pickle\<close>, the path every method opens is
  the cache folder joined with it, and two keys have one path exactly when they have
  one digest.
\<close>

theorem digest_and_location:
  "str_to_hash s =
     hexdigest (sha_blocks (length (pad (encode_utf8 s)) div 64) H256 (pad (encode_utf8 s)))
   \<and> length (pad (encode_utf8 s)) mod 64 = 0
   \<and> length (str_to_hash s) = 64
   \<and> set (str_to_hash s) \<subseteq> set ''0123456789abcdef''
   \<and> str_to_hash ''test'' = ''9f86d081884c7d659a2feaa0c55ad015a3bf4f1b2b0b822cd15d6c15b0f00a08''
   \<and> str_to_hash ''abc'' = ''ba7816bf8f01cfea414140de5dae2223b00361a396177a9cb410ff61f20015ad''
   \<and> str_to_hash ''cache_manager'' =
        ''34d7518f35fb588fcc7768ea21389b823f33e8eb8742a34172fcfff5ec388409''
   \<and> str_to_hash [] = ''e3b0c44298fc1c149afbf4c8996fb92427ae41e4649b934ca495991b7852b855''
   \<and> str_to_hash [CHR 0xC3, CHR 0xA9] =
        ''4a99557e4033c3539de2eb65472017cad5f9557f7a0625a09f1c3f6e2ba69c4c''
   \<and> str_to_hash (replicate 56 CHR ''a'') =
        ''b35439a4ac6f0948b6d6f9e3c6af0f5f590ce20f1bde7090ef7970686ec6738a''
   \<and> str_to_filename s = str_to_hash s @ ''.pickle''
   \<and> entry_path self s =
        (if cache_folder_path self = [] \<or> last (cache_folder_path self) = CHR ''/''
         then cache_folder_path self @ str_to_hash s @ ''.pickle''
         else cache_folder_path self @ ''/'' @ str_to_hash s @ ''.pickle'')
   \<and> (entry_path self s = entry_path self t) = (str_to_hash s = str_to_hash t)"
proof -
  have unfold: "str_to_hash s =
      hexdigest (sha_blocks (length (pad (encode_utf8 s)) div 64) H256 (pad (encode_utf8 s)))"
    by (simp add: str_to_hash_def sha256_def)
  have path: "entry_path self s =
      (if cache_folder_path self = [] \<or> last (cache_folder_path self) = CHR ''/''
       then cache_folder_path self @ str_to_hash s @ ''.pickle''
       else cache_folder_path self @ ''/'' @ str_to_hash s @ ''.pickle'')"
    using join_filename [of self s] by (simp add: str_to_filename_def)
  have name: "str_to_filename s = str_to_hash s @ ''.pickle''"
    by (simp add: str_to_filename_def)
  show ?thesis
    by (intro conjI unfold length_pad length_str_to_hash set_str_to_hash str_to_hash_test
          str_to_hash_abc str_to_hash_cache_manager str_to_hash_empty str_to_hash_two_bytes
          str_to_hash_two_blocks name path entry_path_eq_iff)
qed

text \<open>
  C10. For two keys with different digests, \<open>put_in_cache\<close> and \<open>clear_from_cache\<close>
  on the first, whether they return or raise, leave the second as it was:
  \<open>has_in_cache\<close> and \<open>retrieve_from_cache\<close> on it give the same before and after.
\<close>

theorem distinct_keys_independent:
  assumes "str_to_hash k1 \<noteq> str_to_hash k2"
  shows "has_in_cache self (snd (put_in_cache pk self fs k1 v)) k2 = has_in_cache self fs k2
         \<and> retrieve_from_cache pk self (snd (put_in_cache pk self fs k1 v)) k2
             = retrieve_from_cache pk self fs k2
         \<and> has_in_cache self (snd (clear_from_cache self fs k1)) k2 = has_in_cache self fs k2
         \<and> retrieve_from_cache pk self (snd (clear_from_cache self fs k1)) k2
             = retrieve_from_cache pk self fs k2"
proof -
  from assms have ne: "entry_path self k2 \<noteq> entry_path self k1"
    using entry_path_eq_iff [of self k2 k1] by auto
  show ?thesis
    using ne
    by (simp add: put_in_cache_files clear_from_cache_files has_in_cache_def isfile_def
          retrieve_from_cache_def open_rb_def)
qed

text \<open>The keys \<open>test\<close> and \<open>abc\<close>: storing and clearing \<open>test\<close> with \<open>abc\<close> in the
  cache.\<close>

theorem distinct_keys_independent_witness:
  "has_in_cache example_manager
      (snd (put_in_cache example_pickle example_manager
         (empty_cache(entry_path example_manager ''abc'' \<mapsto> File (map of_char ''a'' @ [0x2e])))
         ''test'' ''b''))
      ''abc''
   \<and> retrieve_from_cache example_pickle example_manager
      (snd (put_in_cache example_pickle example_manager
         (empty_cache(entry_path example_manager ''abc'' \<mapsto> File (map of_char ''a'' @ [0x2e])))
         ''test'' ''b''))
      ''abc'' = Inr ''a''
   \<and> has_in_cache example_manager
      (snd (clear_from_cache example_manager
         (empty_cache(entry_path example_manager ''abc'' \<mapsto> File (map of_char ''a'' @ [0x2e]),
                      entry_path example_manager ''test'' \<mapsto> File (map of_char ''b'' @ [0x2e])))
         ''test''))
      ''abc''
   \<and> retrieve_from_cache example_pickle example_manager
      (snd (clear_from_cache example_manager
         (empty_cache(entry_path example_manager ''abc'' \<mapsto> File (map of_char ''a'' @ [0x2e]),
                      entry_path example_manager ''test'' \<mapsto> File (map of_char ''b'' @ [0x2e])))
         ''test''))
      ''abc'' = Inr ''a''"
proof -
  let ?fs = "empty_cache(entry_path example_manager ''abc''
               \<mapsto> File (map of_char ''a'' @ [0x2e]))"
  let ?fs2 = "empty_cache(entry_path example_manager ''abc'' \<mapsto> File (map of_char ''a'' @ [0x2e]),
                entry_path example_manager ''test'' \<mapsto> File (map of_char ''b'' @ [0x2e]))"
  have ne: "str_to_hash ''test'' \<noteq> str_to_hash ''abc''"
    by (simp add: str_to_hash_test str_to_hash_abc)
  then have pne: "entry_path example_manager ''abc'' \<noteq> entry_path example_manager ''test''"
    by (simp add: entry_path_eq_iff)
  have h: "has_in_cache example_manager ?fs ''abc''"
    by (simp add: has_in_cache_def isfile_def)
  have r: "retrieve_from_cache example_pickle example_manager ?fs ''abc'' = Inr ''a''"
    using example_pickle_load [of "''a''"] by (simp add: retrieve_from_cache_def open_rb_def)
  have h2: "has_in_cache example_manager ?fs2 ''abc''"
    using pne by (simp add: has_in_cache_def isfile_def)
  have r2: "retrieve_from_cache example_pickle example_manager ?fs2 ''abc'' = Inr ''a''"
    using pne example_pickle_load [of "''a''"]
    by (simp add: retrieve_from_cache_def open_rb_def)
  show ?thesis
    using distinct_keys_independent [OF ne, where self = example_manager and pk = example_pickle
        and fs = ?fs and v = "''b''"]
      distinct_keys_independent [OF ne, where self = example_manager and pk = example_pickle
        and fs = ?fs2]
      h r h2 r2
    by simp
qed

end
